theory Spec2Isabelle
  imports Main "HOL-Library.Word"
begin

section \<open>Strings of the host language\<close>

text \<open>
  A JavaScript string is a sequence of 16-bit code units; \<open>length\<close>, \<open>split("")\<close> and
  a regular expression without the \<open>u\<close> flag all work on code units. \<open>str\<close> turns an
  ASCII literal into such a string.
\<close>

type_synonym jschar = "16 word"
type_synonym jsstring = "jschar list"

definition str :: "string \<Rightarrow> jsstring" where
  "str s = map of_char s"

abbreviation dquote :: jschar where "dquote \<equiv> 0x22"
abbreviation squote :: jschar where "squote \<equiv> 0x27"
abbreviation backtick :: jschar where "backtick \<equiv> 0x60"
abbreviation bslash :: jschar where "bslash \<equiv> 0x5C"
abbreviation dollar :: jschar where "dollar \<equiv> 0x24"
abbreviation space :: jschar where "space \<equiv> 0x20"
abbreviation lparen :: jschar where "lparen \<equiv> 0x28"
abbreviation rparen :: jschar where "rparen \<equiv> 0x29"
abbreviation slash :: jschar where "slash \<equiv> 0x2F"
abbreviation colon :: jschar where "colon \<equiv> 0x3A"

text \<open>
  The class \<open>\s\<close> of a regular expression: the white space and line terminator code
  points of the language (tab, LF, VT, FF, CR, space, NBSP, U+1680, U+2000 to U+200A,
  U+2028, U+2029, U+202F, U+205F, U+3000, U+FEFF).
\<close>

definition regex_space :: "jschar \<Rightarrow> bool" where
  "regex_space c \<longleftrightarrow>
     c = 0x09 \<or> c = 0x0A \<or> c = 0x0B \<or> c = 0x0C \<or> c = 0x0D \<or> c = 0x20 \<or> c = 0xA0 \<or>
     c = 0x1680 \<or> (0x2000 \<le> c \<and> c \<le> 0x200A) \<or> c = 0x2028 \<or> c = 0x2029 \<or>
     c = 0x202F \<or> c = 0x205F \<or> c = 0x3000 \<or> c = 0xFEFF"

text \<open>
  The class \<open>[A-Z]\<close> under the \<open>i\<close> flag (and no \<open>u\<close> flag): canonicalisation
  never maps a code unit of 128 or more to an ASCII one, so the class holds the ASCII
  letters of both cases and nothing else.
\<close>

definition regex_letter_i :: "jschar \<Rightarrow> bool" where
  "regex_letter_i c \<longleftrightarrow> (0x41 \<le> c \<and> c \<le> 0x5A) \<or> (0x61 \<le> c \<and> c \<le> 0x7A)"

text \<open>
  \<open>s.replace(/([...])/g, "\\$1")\<close> for a character class: every code unit of the
  class is replaced by a backslash followed by itself, scanning from the left.
\<close>

fun replace_class :: "(jschar \<Rightarrow> bool) \<Rightarrow> jsstring \<Rightarrow> jsstring" where
  "replace_class cls [] = []"
| "replace_class cls (c # cs) =
     (if cls c then bslash # c # replace_class cls cs else c # replace_class cls cs)"

section \<open>escapeShellArg\<close>

text \<open>The class \<open>["'`\\$ ]\<close> of the test and the class \<open>["'`\\$]\<close> of the replacement.\<close>

definition shell_test_class :: "jschar \<Rightarrow> bool" where
  "shell_test_class c \<longleftrightarrow>
     c = dquote \<or> c = squote \<or> c = backtick \<or> c = bslash \<or> c = dollar \<or> c = space"

definition shell_replace_class :: "jschar \<Rightarrow> bool" where
  "shell_replace_class c \<longleftrightarrow>
     c = dquote \<or> c = squote \<or> c = backtick \<or> c = bslash \<or> c = dollar"

definition escapeShellArg :: "jsstring \<Rightarrow> jsstring" where
  "escapeShellArg arg =
     (if \<not> list_ex shell_test_class arg then arg
      else [dquote] @ replace_class shell_replace_class arg @ [dquote])"

section \<open>escapeFileArg\<close>

text \<open>The class \<open>["'`\s\\()\\$]\<close>; the backslash is listed twice in the source.\<close>

definition file_replace_class :: "jschar \<Rightarrow> bool" where
  "file_replace_class c \<longleftrightarrow>
     c = dquote \<or> c = squote \<or> c = backtick \<or> regex_space c \<or> c = bslash \<or>
     c = lparen \<or> c = rparen \<or> c = bslash \<or> c = dollar"

text \<open>\<open>/(\\\\)/.test(s)\<close>: two backslashes in a row somewhere in \<open>s\<close>.\<close>

fun test_double_bslash :: "jsstring \<Rightarrow> bool" where
  "test_double_bslash (a # b # cs) =
     ((a = bslash \<and> b = bslash) \<or> test_double_bslash (b # cs))"
| "test_double_bslash _ = False"

text \<open>
  \<open>s.replace(/\\\\/g, "/")\<close>: every pair of backslashes becomes one slash; the matches
  are taken from the left and do not overlap.
\<close>

fun replace_double_bslash :: "jsstring \<Rightarrow> jsstring" where
  "replace_double_bslash (a # b # cs) =
     (if a = bslash \<and> b = bslash then slash # replace_double_bslash cs
      else a # replace_double_bslash (b # cs))"
| "replace_double_bslash cs = cs"

text \<open>
  \<open>s.replace(/^["]?[A-Z]:\//gi, "/")\<close>: the pattern is anchored at the start, so there
  is at most one match; the optional quote is tried first, then the match without it.
\<close>

fun replace_drive :: "jsstring \<Rightarrow> jsstring" where
  "replace_drive (q # l # c # s # rest) =
     (if q = dquote \<and> regex_letter_i l \<and> c = colon \<and> s = slash then slash # rest
      else if regex_letter_i q \<and> l = colon \<and> c = slash then slash # s # rest
      else q # l # c # s # rest)"
| "replace_drive [l, c, s] =
     (if regex_letter_i l \<and> c = colon \<and> s = slash then [slash] else [l, c, s])"
| "replace_drive cs = cs"

text \<open>
  \<open>process.platform\<close> is global state of the host; it is a parameter here.
\<close>

definition escapeFileArg :: "string \<Rightarrow> jsstring \<Rightarrow> jsstring" where
  "escapeFileArg platform filename0 =
     (let filename = replace_class file_replace_class filename0 in
      if \<not> test_double_bslash filename then filename
      else if platform = ''win32'' then replace_drive (replace_double_bslash filename)
      else filename)"

section \<open>buildOption\<close>

text \<open>
  The value is \<open>string | null\<close>: \<open>None\<close> is \<open>null\<close> (or \<open>undefined\<close>, which the walk
  over an array yields for a hole). The test \<open>if (value)\<close> fails on both and on the
  empty string.
\<close>

definition buildOption ::
  "jsstring \<Rightarrow> jsstring option \<Rightarrow> (jsstring \<Rightarrow> jsstring) \<Rightarrow> jsstring" where
  "buildOption name val escapeArg =
     (let single = (length name = 1);
          prefix = (if single then str ''-'' else str ''--'');
          glue = (if single then str '' '' else str ''='');
          option = prefix @ name
      in case val of
           None \<Rightarrow> option
         | Some v \<Rightarrow> if v \<noteq> [] then option @ glue @ escapeArg v else option)"

section \<open>The spec's words for path escaping\<close>

text \<open>
  The characters the spec lists for path escaping: the two quotes, the backtick, the
  backslash, the dollar, the two parentheses and any white space.
\<close>

definition path_special :: "jschar \<Rightarrow> bool" where
  "path_special c \<longleftrightarrow>
     c \<in> {dquote, squote, backtick, bslash, dollar, lparen, rparen} \<or> regex_space c"

text \<open>The spec's drive-letter-rooted pattern \<open>X:\...\<close>, on the string before escaping.\<close>

fun drive_rooted :: "jsstring \<Rightarrow> bool" where
  "drive_rooted (l # c # b # rest) \<longleftrightarrow> regex_letter_i l \<and> c = colon \<and> b = bslash"
| "drive_rooted _ \<longleftrightarrow> False"

section \<open>Objects used as mappings\<close>

text \<open>
  \<open>_options\<close> is a plain object. An object is modelled by its own properties in the
  order of their creation. Assigning to a key that exists changes the value and keeps
  the position; assigning to a new key appends.
\<close>

type_synonym 'v jsobject = "(jsstring \<times> 'v) list"

fun assign :: "'v jsobject \<Rightarrow> jsstring \<Rightarrow> 'v \<Rightarrow> 'v jsobject" where
  "assign [] k v = [(k, v)]"
| "assign ((k', v') # es) k v =
     (if k' = k then (k, v) # es else (k', v') # assign es k v)"

text \<open>
  \<open>Object.entries\<close> lists the own properties in the order of \<open>OwnPropertyKeys\<close>: first
  the keys that are array indices (the decimal numerals of the integers from 0 to
  \<open>2^32 - 2\<close>, without leading zeros) in ascending numeric order, then all other keys in
  the order of their creation.
\<close>

definition is_digit :: "jschar \<Rightarrow> bool" where
  "is_digit c \<longleftrightarrow> 0x30 \<le> c \<and> c \<le> 0x39"

definition decimal_value :: "jsstring \<Rightarrow> nat" where
  "decimal_value k = foldl (\<lambda>n c. 10 * n + unat (c - 0x30)) 0 k"

definition is_array_index :: "jsstring \<Rightarrow> bool" where
  "is_array_index k \<longleftrightarrow>
     k \<noteq> [] \<and> list_all is_digit k \<and> (length k = 1 \<or> hd k \<noteq> 0x30) \<and>
     decimal_value k \<le> 4294967294"

definition object_entries :: "'v jsobject \<Rightarrow> (jsstring \<times> 'v) list" where
  "object_entries obj =
     sort_key (\<lambda>e. decimal_value (fst e)) (filter (\<lambda>e. is_array_index (fst e)) obj) @
     filter (\<lambda>e. \<not> is_array_index (fst e)) obj"

section \<open>The state of an Rsync object\<close>

text \<open>
  The private fields that \<open>args\<close>, \<open>command\<close> and \<open>execute\<close> read; a field \<open>_x\<close> of
  the class is \<open>u_x\<close> here. A value of \<open>_options\<close> is \<open>null\<close>, a string or an array of
  strings; the array is the caller's own object and may have holes, so it is a list of
  slots, \<open>None\<close> for a hole. \<open>u_options_proto\<close> tells whether \<open>_options\<close> still inherits from
  \<open>Object.prototype\<close>, as the object literal \<open>{}\<close> does.
\<close>

datatype optval = VNull | VStr jsstring | VArr "jsstring option list"

record rsync =
  u_executable :: jsstring
  u_executableShell :: jsstring
  u_sources :: "jsstring list"
  u_destination :: jsstring
  u_includes :: "jsstring list"
  u_excludes :: "jsstring list"
  u_options :: "optval jsobject"
  u_options_proto :: bool

section \<open>args and command\<close>

text \<open>
  One round of the loop over \<open>Object.entries(this._options)\<close>, on the arrays \<open>short\<close>
  and \<open>long\<close>. \<open>for (const val of value)\<close> visits every index of the array and
  yields \<open>undefined\<close> at a hole.
\<close>

fun args_entry ::
  "jsstring list \<times> jsstring list \<Rightarrow> jsstring \<times> optval \<Rightarrow> jsstring list \<times> jsstring list" where
  "args_entry (short, long) (key, val) =
     (let noval = (val = VNull) in
      if length key = 1 \<and> noval then (short @ [key], long)
      else (case val of
              VArr vals \<Rightarrow>
                (short, long @ map (\<lambda>val. buildOption key val escapeShellArg) vals)
            | VStr v \<Rightarrow> (short, long @ [buildOption key (Some v) escapeShellArg])
            | VNull \<Rightarrow> (short, long @ [buildOption key None escapeShellArg])))"

text \<open>The array \<open>args\<close> after the options have been rendered (up to \<open>args.push(...long)\<close>).\<close>

definition option_args :: "optval jsobject \<Rightarrow> jsstring list" where
  "option_args opts =
     (let (short, long) = foldl args_entry ([], []) (object_entries opts);
          args0 = (if length short > 0 then [str ''-'' @ concat short] else [])
      in if length long > 0 then args0 @ long else args0)"

definition args :: "string \<Rightarrow> rsync \<Rightarrow> jsstring list" where
  "args platform this =
     (let args1 = option_args (u_options this);
          args2 = args1 @
            map (\<lambda>pattern. buildOption (str ''exclude'') (Some pattern) (escapeFileArg platform))
              (u_excludes this);
          args3 = args2 @
            map (\<lambda>pattern. buildOption (str ''include'') (Some pattern) (escapeFileArg platform))
              (u_includes this);
          args4 = (if length (u_sources this) > 0
                   then args3 @ map (escapeFileArg platform) (u_sources this) else args3)
      in if u_destination this \<noteq> []
         then args4 @ [escapeFileArg platform (u_destination this)] else args4)"

text \<open>\<open>xs.join(sep)\<close>\<close>

fun join :: "jsstring \<Rightarrow> jsstring list \<Rightarrow> jsstring" where
  "join sep [] = []"
| "join sep [x] = x"
| "join sep (x # y # ys) = x @ sep @ join sep (y # ys)"

definition command :: "string \<Rightarrow> rsync \<Rightarrow> jsstring" where
  "command platform this = u_executable this @ str '' '' @ join (str '' '') (args platform this)"

section \<open>The spec's words for the rendering of options\<close>

text \<open>A short flag: a key of one character whose value is the null marker.\<close>

definition short_flag :: "jsstring \<times> optval \<Rightarrow> bool" where
  "short_flag e \<longleftrightarrow> length (fst e) = 1 \<and> snd e = VNull"

text \<open>
  The rendering of one value of an option: the prefix (\<open>-\<close> for a key of one character,
  \<open>--\<close> otherwise) and the key; then, for a value that is present and not empty, the
  separator (a space for a key of one character, \<open>=\<close> otherwise) and the option-escaped
  value.
\<close>

definition option_prefix :: "jsstring \<Rightarrow> jsstring" where
  "option_prefix k = (if length k = 1 then str ''-'' else str ''--'')"

definition option_glue :: "jsstring \<Rightarrow> jsstring" where
  "option_glue k = (if length k = 1 then str '' '' else str ''='')"

definition option_token :: "jsstring \<Rightarrow> jsstring \<Rightarrow> jsstring" where
  "option_token k v =
     (if v = [] then option_prefix k @ k
      else option_prefix k @ k @ option_glue k @ escapeShellArg v)"

text \<open>
  The tokens of one entry that is not a short flag: one token for the null marker or a
  string, one token for each slot of a sequence (the prefixed key alone for a hole).
\<close>

fun slot_token :: "jsstring \<Rightarrow> jsstring option \<Rightarrow> jsstring" where
  "slot_token k None = option_prefix k @ k"
| "slot_token k (Some v) = option_token k v"

fun option_tokens :: "jsstring \<times> optval \<Rightarrow> jsstring list" where
  "option_tokens (k, VNull) = [option_prefix k @ k]"
| "option_tokens (k, VStr v) = [option_token k v]"
| "option_tokens (k, VArr vs) = map (slot_token k) vs"

text \<open>
  The rendering of the option entries \<open>es\<close>, taken in the order of the list: the combined
  token of the short flags if there is one, then the tokens of the other entries.
\<close>

definition rendered_options :: "(jsstring \<times> optval) list \<Rightarrow> jsstring list" where
  "rendered_options es =
     (if filter short_flag es = [] then []
      else [str ''-'' @ concat (map fst (filter short_flag es))]) @
     concat (map option_tokens (filter (\<lambda>e. \<not> short_flag e) es))"

text \<open>The token of an exclude or include pattern.\<close>

definition pattern_token :: "string \<Rightarrow> string \<Rightarrow> jsstring \<Rightarrow> jsstring" where
  "pattern_token platform name p =
     (if p = [] then str ''--'' @ str name
      else str ''--'' @ str name @ str ''='' @ escapeFileArg platform p)"

section \<open>The configuration object\<close>

text \<open>
  The constructor's argument, typed as \<open>RsyncOptions\<close>: a field \<open>x\<close> of the object is
  \<open>o_x\<close> here, an absent field is \<open>None\<close> (\<open>False\<close> for a boolean, of which the code
  only reads the truthiness). The fields \<open>o_a\<close> to \<open>o_t\<close> are the one-letter fields that
  only the JavaScript variant reads. \<open>cwd\<close>, \<open>env\<close>, \<open>output\<close> and \<open>debug\<close> have no
  part in the rendering and are left out.

  A field of type \<open>string | string[]\<close> holds a string or an array. The arrays of
  \<open>source\<close>, \<open>flags\<close>, \<open>exclude\<close> and \<open>include\<close> are read once, element by element,
  by the same statements in both variants, and are lists of strings here. The array of
  \<open>chmod\<close> is stored in \<open>_options\<close> as the object it is and walked later by \<open>args\<close>,
  so it is a list of slots, \<open>None\<close> for a hole (as in \<open>new Array(1)\<close>).
\<close>

datatype 'a str_or_arr = Str jsstring | Arr "'a list"

record config =
  o_source :: "jsstring str_or_arr option"
  o_destination :: "jsstring option"
  o_executable :: "jsstring option"
  o_executableShell :: "jsstring option"
  o_flags :: "jsstring str_or_arr option"
  o_shell :: "jsstring option"
  o_delete :: bool
  o_progress :: bool
  o_archive :: bool
  o_compress :: bool
  o_recursive :: bool
  o_update :: bool
  o_quiet :: bool
  o_dirs :: bool
  o_links :: bool
  o_dry :: bool
  o_hardLinks :: bool
  o_perms :: bool
  o_executability :: bool
  o_group :: bool
  o_owner :: bool
  o_acls :: bool
  o_xattrs :: bool
  o_devices :: bool
  o_specials :: bool
  o_times :: bool
  o_chmod :: "jsstring option str_or_arr option"
  o_exclude :: "jsstring str_or_arr option"
  o_include :: "jsstring str_or_arr option"
  o_set :: "jsstring option jsobject option"
  o_a :: bool
  o_z :: bool
  o_r :: bool
  o_u :: bool
  o_q :: bool
  o_d :: bool
  o_l :: bool
  o_n :: bool
  o_H :: bool
  o_p :: bool
  o_E :: bool
  o_g :: bool
  o_o :: bool
  o_A :: bool
  o_X :: bool
  o_t :: bool

definition empty_config :: config where
  "empty_config =
     \<lparr>o_source = None, o_destination = None, o_executable = None, o_executableShell = None,
      o_flags = None, o_shell = None, o_delete = False, o_progress = False,
      o_archive = False, o_compress = False, o_recursive = False, o_update = False,
      o_quiet = False, o_dirs = False, o_links = False, o_dry = False, o_hardLinks = False,
      o_perms = False, o_executability = False, o_group = False, o_owner = False,
      o_acls = False, o_xattrs = False, o_devices = False, o_specials = False,
      o_times = False, o_chmod = None, o_exclude = None, o_include = None, o_set = None,
      o_a = False, o_z = False, o_r = False, o_u = False, o_q = False, o_d = False,
      o_l = False, o_n = False, o_H = False, o_p = False, o_E = False, o_g = False,
      o_o = False, o_A = False, o_X = False, o_t = False\<rparr>"

text \<open>
  Truthiness: an absent field and the empty string are falsy, every array is truthy.
  \<open>as_array v\<close> is \<open>Array.isArray(v) ? v : [v]\<close>; \<open>split_chars s\<close> is \<open>s.split("")\<close>.
\<close>

fun truthy :: "'a str_or_arr option \<Rightarrow> bool" where
  "truthy None = False"
| "truthy (Some (Str s)) = (s \<noteq> [])"
| "truthy (Some (Arr xs)) = True"

fun truthy_str :: "jsstring option \<Rightarrow> bool" where
  "truthy_str None = False"
| "truthy_str (Some s) = (s \<noteq> [])"

fun as_array :: "jsstring str_or_arr \<Rightarrow> jsstring list" where
  "as_array (Arr xs) = xs"
| "as_array (Str s) = [s]"

definition split_chars :: "jsstring \<Rightarrow> jsstring list" where
  "split_chars s = map (\<lambda>c. [c]) s"

section \<open>processOptions (TypeScript variant)\<close>

text \<open>
  \<open>this._options[k] = v\<close>. While \<open>_options\<close> inherits from \<open>Object.prototype\<close>, an
  assignment to the key \<open>__proto__\<close> reaches the inherited setter and creates no own
  property: the value \<open>null\<close> removes the prototype, a string is ignored, an array
  becomes the prototype (and inherits the setter itself).
\<close>

definition set_option :: "jsstring \<Rightarrow> optval \<Rightarrow> rsync \<Rightarrow> rsync" where
  "set_option k v this =
     (if k = str ''__proto__'' \<and> u_options_proto this
      then (if v = VNull then this\<lparr>u_options_proto := False\<rparr> else this)
      else this\<lparr>u_options := assign (u_options this) k v\<rparr>)"

text \<open>\<open>if (c) this._options.k = null\<close>\<close>

definition flag_if :: "bool \<Rightarrow> string \<Rightarrow> rsync \<Rightarrow> rsync" where
  "flag_if c k this = (if c then set_option (str k) VNull this else this)"

definition step_source :: "config \<Rightarrow> rsync \<Rightarrow> rsync" where
  "step_source options this =
     (case o_source options of
        None \<Rightarrow> this
      | Some v \<Rightarrow> if truthy (Some v) then this\<lparr>u_sources := as_array v\<rparr> else this)"

definition step_destination :: "config \<Rightarrow> rsync \<Rightarrow> rsync" where
  "step_destination options this =
     (case o_destination options of
        None \<Rightarrow> this
      | Some d \<Rightarrow> if truthy_str (Some d) then this\<lparr>u_destination := d\<rparr> else this)"

definition step_flags :: "config \<Rightarrow> rsync \<Rightarrow> rsync" where
  "step_flags options this =
     (case o_flags options of
        None \<Rightarrow> this
      | Some v \<Rightarrow>
          if truthy (Some v)
          then foldl (\<lambda>t flag. set_option flag VNull t) this
                 (case v of Arr xs \<Rightarrow> xs | Str s \<Rightarrow> split_chars s)
          else this)"

definition step_shell :: "config \<Rightarrow> rsync \<Rightarrow> rsync" where
  "step_shell options this =
     (case o_shell options of
        None \<Rightarrow> this
      | Some s \<Rightarrow> if truthy_str (Some s) then set_option (str ''rsh'') (VStr s) this else this)"

text \<open>
  \<open>this._options.chmod = options.chmod\<close> for an array (the same object, with its
  holes), \<open>[options.chmod]\<close> for a string.
\<close>

definition step_chmod :: "config \<Rightarrow> rsync \<Rightarrow> rsync" where
  "step_chmod options this =
     (case o_chmod options of
        None \<Rightarrow> this
      | Some v \<Rightarrow>
          if truthy (Some v)
          then set_option (str ''chmod'')
                 (VArr (case v of Arr slots \<Rightarrow> slots | Str s \<Rightarrow> [Some s])) this
          else this)"

definition step_exclude :: "config \<Rightarrow> rsync \<Rightarrow> rsync" where
  "step_exclude options this =
     (case o_exclude options of
        None \<Rightarrow> this
      | Some v \<Rightarrow>
          if truthy (Some v) then this\<lparr>u_excludes := u_excludes this @ as_array v\<rparr>
          else this)"

definition step_include :: "config \<Rightarrow> rsync \<Rightarrow> rsync" where
  "step_include options this =
     (case o_include options of
        None \<Rightarrow> this
      | Some v \<Rightarrow>
          if truthy (Some v) then this\<lparr>u_includes := u_includes this @ as_array v\<rparr>
          else this)"

definition step_set :: "config \<Rightarrow> rsync \<Rightarrow> rsync" where
  "step_set options this =
     (case o_set options of
        None \<Rightarrow> this
      | Some obj \<Rightarrow>
          foldl (\<lambda>t (key, val).
                   set_option key (case val of None \<Rightarrow> VNull | Some s \<Rightarrow> VStr s) t)
            this (object_entries obj))"

text \<open>The statements of \<open>_processOptions\<close>, in the order of the source.\<close>

definition processOptions :: "config \<Rightarrow> rsync \<Rightarrow> rsync" where
  "processOptions options this =
     foldl (\<lambda>t step. step t) this
       [step_source options, step_destination options, step_flags options,
        step_shell options,
        flag_if (o_delete options) ''delete'',
        flag_if (o_progress options) ''progress'',
        flag_if (o_archive options) ''a'',
        flag_if (o_compress options) ''z'',
        flag_if (o_recursive options) ''r'',
        flag_if (o_update options) ''u'',
        flag_if (o_quiet options) ''q'',
        flag_if (o_dirs options) ''d'',
        flag_if (o_links options) ''l'',
        flag_if (o_dry options) ''n'',
        flag_if (o_hardLinks options) ''H'',
        flag_if (o_perms options) ''p'',
        flag_if (o_executability options) ''E'',
        flag_if (o_group options) ''g'',
        flag_if (o_owner options) ''o'',
        flag_if (o_acls options) ''A'',
        flag_if (o_xattrs options) ''X'',
        flag_if (o_devices options) ''devices'',
        flag_if (o_specials options) ''specials'',
        flag_if (o_times options) ''t'',
        step_chmod options, step_exclude options, step_include options,
        step_set options]"

section \<open>The constructor (TypeScript variant)\<close>

text \<open>
  The values a caller can pass. Of a number, a bigint, a symbol and a function only the
  kind matters. \<open>typeof null\<close> is \<open>"object"\<close>; an array is an object too.
\<close>

datatype jsvalue =
    JUndefined | JNull | JBoolean bool | JNumber | JBigInt | JString jsstring | JSymbol
  | JFunction | JArray "jsvalue list" | JObject config

fun typeof :: "jsvalue \<Rightarrow> string" where
  "typeof JUndefined = ''undefined''"
| "typeof JNull = ''object''"
| "typeof (JBoolean b) = ''boolean''"
| "typeof JNumber = ''number''"
| "typeof JBigInt = ''bigint''"
| "typeof (JString s) = ''string''"
| "typeof JSymbol = ''symbol''"
| "typeof JFunction = ''function''"
| "typeof (JArray xs) = ''object''"
| "typeof (JObject c) = ''object''"

fun isArray :: "jsvalue \<Rightarrow> bool" where
  "isArray (JArray xs) = True"
| "isArray _ = False"

text \<open>
  What the constructor throws: the error it raises itself, with its message, or the
  \<open>TypeError\<close> of the language for a property read on \<open>null\<close> or a call of something
  that is no function.
\<close>

datatype error = Error jsstring | TypeError

text \<open>\<open>x || d\<close> for an optional string \<open>x\<close>, and the state before \<open>_processOptions\<close> runs.\<close>

fun or_default :: "jsstring option \<Rightarrow> jsstring \<Rightarrow> jsstring" where
  "or_default None d = d"
| "or_default (Some s) d = (if s \<noteq> [] then s else d)"

definition initial_state :: "config \<Rightarrow> rsync" where
  "initial_state options =
     \<lparr>u_executable = or_default (o_executable options) (str ''rsync''),
      u_executableShell = or_default (o_executableShell options) (str ''/bin/sh''),
      u_sources = [], u_destination = [], u_includes = [], u_excludes = [],
      u_options = [], u_options_proto = True\<rparr>"

text \<open>
  The parameter has the default \<open>{}\<close>, which replaces \<open>undefined\<close> before the guard
  runs. Of the values that pass the guard, \<open>null\<close> is the one that is no object: the
  first property read on it throws.
\<close>

definition constructor :: "jsvalue \<Rightarrow> error + rsync" where
  "constructor arg =
     (let options = (if arg = JUndefined then JObject empty_config else arg) in
      if typeof options \<noteq> ''object'' \<or> isArray options
      then Inl (Error (str ''Rsync options must be an Object''))
      else (case options of
              JObject c \<Rightarrow> Inr (processOptions c (initial_state c))
            | _ \<Rightarrow> Inl TypeError))"

section \<open>The JavaScript variant\<close>

text \<open>
  \<open>buildOption\<close>, \<open>escapeShellArg\<close> and \<open>escapeFileArg\<close> of the JavaScript file are
  those of the TypeScript file without the type annotations. \<open>_processOptions\<close>,
  \<open>args\<close> and \<open>command\<close> are embedded from the JavaScript file on their own:
  \<open>_processOptions\<close> calls \<open>options.flags.split("")\<close> whatever \<open>flags\<close> is, which
  throws for an array, and reads a one-letter field beside each named shorthand; \<open>args\<close>
  walks its arrays with \<open>forEach\<close>, which skips the holes of an array.
\<close>

definition step_flags_js :: "config \<Rightarrow> rsync \<Rightarrow> error + rsync" where
  "step_flags_js options this =
     (case o_flags options of
        None \<Rightarrow> Inr this
      | Some v \<Rightarrow>
          if truthy (Some v)
          then (case v of
                  Arr xs \<Rightarrow> Inl TypeError
                | Str s \<Rightarrow> Inr (foldl (\<lambda>t flag. set_option flag VNull t) this (split_chars s)))
          else Inr this)"

definition processOptions_js :: "config \<Rightarrow> rsync \<Rightarrow> error + rsync" where
  "processOptions_js options this =
     (case step_flags_js options (step_destination options (step_source options this)) of
        Inl e \<Rightarrow> Inl e
      | Inr this3 \<Rightarrow>
          Inr (foldl (\<lambda>t step. step t) this3
            [step_shell options,
             flag_if (o_delete options) ''delete'',
             flag_if (o_progress options) ''progress'',
             flag_if (o_archive options \<or> o_a options) ''a'',
             flag_if (o_compress options \<or> o_z options) ''z'',
             flag_if (o_recursive options \<or> o_r options) ''r'',
             flag_if (o_update options \<or> o_u options) ''u'',
             flag_if (o_quiet options \<or> o_q options) ''q'',
             flag_if (o_dirs options \<or> o_d options) ''d'',
             flag_if (o_links options \<or> o_l options) ''l'',
             flag_if (o_dry options \<or> o_n options) ''n'',
             flag_if (o_hardLinks options \<or> o_H options) ''H'',
             flag_if (o_perms options \<or> o_p options) ''p'',
             flag_if (o_executability options \<or> o_E options) ''E'',
             flag_if (o_group options \<or> o_g options) ''g'',
             flag_if (o_owner options \<or> o_o options) ''o'',
             flag_if (o_acls options \<or> o_A options) ''A'',
             flag_if (o_xattrs options \<or> o_X options) ''X'',
             flag_if (o_devices options) ''devices'',
             flag_if (o_specials options) ''specials'',
             flag_if (o_times options \<or> o_t options) ''t'',
             step_chmod options, step_exclude options, step_include options,
             step_set options]))"

definition constructor_js :: "jsvalue \<Rightarrow> error + rsync" where
  "constructor_js arg =
     (let options = (if arg = JUndefined then JObject empty_config else arg) in
      if typeof options \<noteq> ''object'' \<or> isArray options
      then Inl (Error (str ''Rsync options must be an Object''))
      else (case options of
              JObject c \<Rightarrow> processOptions_js c (initial_state c)
            | _ \<Rightarrow> Inl TypeError))"

text \<open>The elements that \<open>forEach\<close> visits: those of the slots that are no holes.\<close>

fun present :: "'a option list \<Rightarrow> 'a list" where
  "present [] = []"
| "present (None # slots) = present slots"
| "present (Some v # slots) = v # present slots"

fun args_entry_js ::
  "jsstring list \<times> jsstring list \<Rightarrow> jsstring \<times> optval \<Rightarrow> jsstring list \<times> jsstring list" where
  "args_entry_js (short, long) (key, val) =
     (let noval = (val = VNull) in
      if length key = 1 \<and> noval then (short @ [key], long)
      else (case val of
              VArr vals \<Rightarrow>
                (short,
                 long @ map (\<lambda>val. buildOption key (Some val) escapeShellArg) (present vals))
            | VStr v \<Rightarrow> (short, long @ [buildOption key (Some v) escapeShellArg])
            | VNull \<Rightarrow> (short, long @ [buildOption key None escapeShellArg])))"

definition option_args_js :: "optval jsobject \<Rightarrow> jsstring list" where
  "option_args_js opts =
     (let (short, long) = foldl args_entry_js ([], []) (object_entries opts);
          args0 = (if length short > 0 then [str ''-'' @ concat short] else [])
      in if length long > 0 then args0 @ long else args0)"

definition args_js :: "string \<Rightarrow> rsync \<Rightarrow> jsstring list" where
  "args_js platform this =
     (let args1 = option_args_js (u_options this);
          args2 = args1 @
            map (\<lambda>pattern. buildOption (str ''exclude'') (Some pattern) (escapeFileArg platform))
              (u_excludes this);
          args3 = args2 @
            map (\<lambda>pattern. buildOption (str ''include'') (Some pattern) (escapeFileArg platform))
              (u_includes this);
          args4 = (if length (u_sources this) > 0
                   then args3 @ map (escapeFileArg platform) (u_sources this) else args3)
      in if u_destination this \<noteq> []
         then args4 @ [escapeFileArg platform (u_destination this)] else args4)"

definition command_js :: "string \<Rightarrow> rsync \<Rightarrow> jsstring" where
  "command_js platform this =
     u_executable this @ str '' '' @ join (str '' '') (args_js platform this)"

section \<open>The conditions under which the two variants agree\<close>

text \<open>
  Each one-letter field that only the JavaScript variant reads, with the named shorthand
  of the same flag; a one-letter field is covered when it is falsy or its named
  shorthand is truthy.
\<close>

definition letter_pairs :: "config \<Rightarrow> (bool \<times> bool) list" where
  "letter_pairs c =
     [(o_a c, o_archive c), (o_z c, o_compress c), (o_r c, o_recursive c),
      (o_u c, o_update c), (o_q c, o_quiet c), (o_d c, o_dirs c), (o_l c, o_links c),
      (o_n c, o_dry c), (o_H c, o_hardLinks c), (o_p c, o_perms c),
      (o_E c, o_executability c), (o_g c, o_group c), (o_o c, o_owner c),
      (o_A c, o_acls c), (o_X c, o_xattrs c), (o_t c, o_times c)]"

definition letters_covered :: "config \<Rightarrow> bool" where
  "letters_covered c \<longleftrightarrow> list_all (\<lambda>(letter, named). letter \<longrightarrow> named) (letter_pairs c)"

text \<open>The \<open>chmod\<close> field is absent, a string, or an array without holes.\<close>

fun chmod_dense :: "jsstring option str_or_arr option \<Rightarrow> bool" where
  "chmod_dense (Some (Arr slots)) \<longleftrightarrow> None \<notin> set slots"
| "chmod_dense _ \<longleftrightarrow> True"

text \<open>No array among the values of an option mapping has a hole.\<close>

fun dense_value :: "optval \<Rightarrow> bool" where
  "dense_value (VArr slots) \<longleftrightarrow> None \<notin> set slots"
| "dense_value _ \<longleftrightarrow> True"

definition dense_options :: "rsync \<Rightarrow> bool" where
  "dense_options this \<longleftrightarrow> list_all (\<lambda>e. dense_value (snd e)) (u_options this)"

section \<open>execute\<close>

text \<open>
  The promise that \<open>execute\<close> returns. A promise is settled once: \<open>resolve\<close> and
  \<open>reject\<close> act on a pending promise and are ignored on a settled one.
\<close>

record rsync_result =
  code :: int
  cmd :: jsstring

text \<open>
  What the promise is rejected with: the error built by the \<open>close\<close> handler, with its
  message, \<open>code\<close> and \<open>cmd\<close>, or the error of the platform, passed on as it came.
\<close>

datatype 'e rejection =
    RsyncError (message: jsstring) (error_code: int) (error_cmd: jsstring)
  | PlatformError 'e

datatype 'e promise = Pending | Fulfilled rsync_result | Rejected "'e rejection"

fun resolve :: "rsync_result \<Rightarrow> 'e promise \<Rightarrow> 'e promise" where
  "resolve v Pending = Fulfilled v"
| "resolve v p = p"

fun reject :: "'e rejection \<Rightarrow> 'e promise \<Rightarrow> 'e promise" where
  "reject e Pending = Rejected e"
| "reject e p = p"

text \<open>
  The decimal numeral of an exit code, as the template literal prints an integer, and
  \<open>null\<close> for the code of a child that a signal ended.
\<close>

fun decimal :: "nat \<Rightarrow> jsstring" where
  "decimal n =
     (if n < 10 then [0x30 + of_nat n]
      else decimal (n div 10) @ [0x30 + of_nat (n mod 10)])"

declare decimal.simps [simp del]

definition number_string :: "int \<Rightarrow> jsstring" where
  "number_string n = (if n < 0 then str ''-'' @ decimal (nat (- n)) else decimal (nat n))"

fun code_string :: "int option \<Rightarrow> jsstring" where
  "code_string None = str ''null''"
| "code_string (Some n) = number_string n"

text \<open>
  The notifications of the child process, in the order of their arrival: chunks of its
  two output streams, \<open>close\<close> with the exit code (\<open>null\<close> is \<open>None\<close>), and \<open>error\<close> with
  the error of the platform.
\<close>

datatype 'e notification =
    StdoutData jsstring | StderrData jsstring | Close "int option" | ErrorEvent 'e

text \<open>The handlers of \<open>close\<close> and \<open>error\<close>; \<open>code ?? -1\<close> is \<open>-1\<close> for \<open>null\<close>.\<close>

definition on_close :: "string \<Rightarrow> rsync \<Rightarrow> int option \<Rightarrow> 'e promise \<Rightarrow> 'e promise" where
  "on_close platform this c p =
     (if c \<noteq> Some 0
      then reject (RsyncError (str ''rsync exited with code '' @ code_string c)
                     (case c of Some n \<Rightarrow> n | None \<Rightarrow> - 1) (command platform this)) p
      else resolve \<lparr>code = (case c of Some n \<Rightarrow> n | None \<Rightarrow> 0),
                    cmd = command platform this\<rparr> p)"

definition on_error :: "'e \<Rightarrow> 'e promise \<Rightarrow> 'e promise" where
  "on_error e p = reject (PlatformError e) p"

text \<open>
  One notification, on the promise. The data handlers pass the chunk to the sinks and
  do not touch the promise.
\<close>

fun deliver :: "string \<Rightarrow> rsync \<Rightarrow> 'e promise \<Rightarrow> 'e notification \<Rightarrow> 'e promise" where
  "deliver platform this p (StdoutData d) = p"
| "deliver platform this p (StderrData d) = p"
| "deliver platform this p (Close c) = on_close platform this c p"
| "deliver platform this p (ErrorEvent e) = on_error e p"

text \<open>The promise of one call of \<open>execute\<close> after the notifications \<open>ns\<close>.\<close>

definition execute :: "string \<Rightarrow> rsync \<Rightarrow> 'e notification list \<Rightarrow> 'e promise" where
  "execute platform this ns = foldl (deliver platform this) Pending ns"

text \<open>
  The number of times the promise changes its state while the notifications \<open>ns\<close> arrive,
  from the state \<open>p\<close> on.
\<close>

fun settlements :: "string \<Rightarrow> rsync \<Rightarrow> 'e promise \<Rightarrow> 'e notification list \<Rightarrow> nat" where
  "settlements platform this p [] = 0"
| "settlements platform this p (n # ns) =
     (if deliver platform this p n \<noteq> p then 1 else 0) +
     settlements platform this (deliver platform this p n) ns"

text \<open>The notifications that the \<open>close\<close> and \<open>error\<close> handlers receive.\<close>

fun completion :: "'e notification \<Rightarrow> bool" where
  "completion (Close c) = True"
| "completion (ErrorEvent e) = True"
| "completion _ = False"

section \<open>Properties of the escaping functions\<close>

lemma replace_class_concat:
  "replace_class cls s = concat (map (\<lambda>c. if cls c then [bslash, c] else [c]) s)"
  by (induction s) simp_all

lemma list_ex_shell_test_class:
  "list_ex shell_test_class arg \<longleftrightarrow>
     set arg \<inter> {dquote, squote, backtick, bslash, dollar, space} \<noteq> {}"
  by (induction arg) (auto simp: shell_test_class_def)

text \<open>
  C3. The option-escaping function returns a value that has none of the characters
  double quote, single quote, backtick, backslash, dollar and space unchanged; any other
  value comes back between two double quotes, with a backslash put before each double
  quote, single quote, backtick, backslash and dollar inside it, and nothing before a
  space.
\<close>

theorem escapeShellArg_spec:
  "escapeShellArg arg =
     (if set arg \<inter> {dquote, squote, backtick, bslash, dollar, space} = {} then arg
      else [dquote] @
           concat (map (\<lambda>c. if c \<in> {dquote, squote, backtick, bslash, dollar}
                             then [bslash, c] else [c]) arg) @
           [dquote])"
  by (simp add: escapeShellArg_def list_ex_shell_test_class replace_class_concat
      shell_replace_class_def)

theorem escapeShellArg_spec_witness:
  "escapeShellArg (str ''max-size'') = str ''max-size'' \<and>
   escapeShellArg (str ''- .git'') = [dquote] @ str ''- .git'' @ [dquote] \<and>
   escapeShellArg (str ''a$b'') = [dquote] @ str ''a'' @ [bslash] @ str ''$b'' @ [dquote]"
  using escapeShellArg_spec [of "str ''max-size''"] escapeShellArg_spec [of "str ''- .git''"]
    escapeShellArg_spec [of "str ''a$b''"]
  by (simp add: str_def)

lemma file_replace_class_path_special: "file_replace_class = path_special"
  by (auto simp: fun_eq_iff file_replace_class_def path_special_def)

lemma not_regex_space_bslash: "\<not> regex_space bslash"
  by (simp add: regex_space_def)

lemma path_special_bslash: "path_special bslash"
  by (simp add: path_special_def)

lemma test_double_bslash_other:
  "c \<noteq> bslash \<Longrightarrow> test_double_bslash (c # e) = test_double_bslash e"
  by (cases e) simp_all

lemma test_double_bslash_escaped:
  "test_double_bslash (replace_class path_special s) \<longleftrightarrow> bslash \<in> set s"
proof (induction s)
  case Nil
  show ?case by simp
next
  case (Cons c s)
  show ?case
  proof (cases "c = bslash")
    case True
    then show ?thesis by (simp add: path_special_bslash)
  next
    case False
    then show ?thesis using Cons.IH
      by (simp add: test_double_bslash_other)
  qed
qed

lemma replace_double_bslash_other:
  "c \<noteq> bslash \<Longrightarrow> replace_double_bslash (c # e) = c # replace_double_bslash e"
  by (cases e) simp_all

lemma replace_double_bslash_escaped:
  "replace_double_bslash (replace_class path_special s) =
     concat (map (\<lambda>c. if c = bslash then [slash]
                       else if path_special c then [bslash, c] else [c]) s)"
proof (induction s)
  case Nil
  show ?case by simp
next
  case (Cons c s)
  show ?case
  proof (cases "c = bslash")
    case True
    then show ?thesis using Cons.IH by (simp add: path_special_bslash)
  next
    case False
    then show ?thesis using Cons.IH
      by (simp add: replace_double_bslash_other)
  qed
qed

lemma escapeFileArg_other_platform:
  "platform \<noteq> ''win32'' \<Longrightarrow>
     escapeFileArg platform filename = replace_class path_special filename"
  by (simp add: escapeFileArg_def Let_def file_replace_class_path_special)

lemma escapeFileArg_no_bslash:
  "bslash \<notin> set filename \<Longrightarrow>
     escapeFileArg platform filename = replace_class path_special filename"
  by (simp add: escapeFileArg_def Let_def file_replace_class_path_special
      test_double_bslash_escaped)

lemma escapeFileArg_win32_bslash:
  "bslash \<in> set filename \<Longrightarrow>
     escapeFileArg ''win32'' filename =
       replace_drive (replace_double_bslash (replace_class path_special filename))"
  by (simp add: escapeFileArg_def Let_def file_replace_class_path_special
      test_double_bslash_escaped)

lemma regex_letter_not_special:
  "regex_letter_i l \<Longrightarrow> \<not> path_special l"
  "regex_letter_i l \<Longrightarrow> l \<noteq> bslash"
  "regex_letter_i l \<Longrightarrow> l \<noteq> dquote"
  by (auto simp: regex_letter_i_def path_special_def regex_space_def word_le_nat_alt)

lemma replace_drive_letter:
  "regex_letter_i l \<Longrightarrow> replace_drive (l # colon # slash # rest) = slash # rest"
  by (cases rest) (simp_all add: regex_letter_not_special)

lemmas escape_eval =
  escapeFileArg_def escapeShellArg_def file_replace_class_def shell_test_class_def
  shell_replace_class_def regex_space_def regex_letter_i_def path_special_def str_def
  Let_def


text \<open>
  C4, as the claim states it, fails on the host platform \<open>win32\<close>: the file name
  \<open>a\b\<close> comes back as \<open>a/b\<close>, with no backslash before the place of its backslash.
\<close>

theorem escapeFileArg_win32_counterexample:
  "escapeFileArg ''win32'' (str ''a'' @ [bslash] @ str ''b'') = str ''a/b'' \<and>
   concat (map (\<lambda>c. if path_special c then [bslash, c] else [c])
     (str ''a'' @ [bslash] @ str ''b'')) = str ''a'' @ [bslash, bslash] @ str ''b''"
  by (simp add: escape_eval)

text \<open>
  C4 (amended). On every host platform other than \<open>win32\<close>, and on \<open>win32\<close> for every
  string without a backslash, the path-escaping function puts one backslash before each
  occurrence of double quote, single quote, backtick, backslash, dollar, opening and
  closing parenthesis and white space, changes nothing else and adds no quotes. On every
  platform \<open>some file.txt\<close> renders as \<open>some\ file.txt\<close> and
  \<open>a_quoted'filename".txt\<close> as \<open>a_quoted\'filename\".txt\<close>.
\<close>

theorem escapeFileArg_escapes:
  "(platform \<noteq> ''win32'' \<or> bslash \<notin> set filename \<longrightarrow>
      escapeFileArg platform filename =
        concat (map (\<lambda>c. if path_special c then [bslash, c] else [c]) filename)) \<and>
   escapeFileArg platform (str ''some file.txt'') = str ''some'' @ [bslash] @ str '' file.txt'' \<and>
   escapeFileArg platform (str ''a_quoted'' @ [squote] @ str ''filename'' @ [dquote] @ str ''.txt'') =
     str ''a_quoted'' @ [bslash, squote] @ str ''filename'' @ [bslash, dquote] @ str ''.txt''"
proof (intro conjI impI)
  assume "platform \<noteq> ''win32'' \<or> bslash \<notin> set filename"
  then have "escapeFileArg platform filename = replace_class path_special filename"
    using escapeFileArg_other_platform escapeFileArg_no_bslash by blast
  then show "escapeFileArg platform filename =
      concat (map (\<lambda>c. if path_special c then [bslash, c] else [c]) filename)"
    by (simp add: replace_class_concat)
next
  show "escapeFileArg platform (str ''some file.txt'') =
      str ''some'' @ [bslash] @ str '' file.txt''"
    by (simp add: escape_eval)
next
  show "escapeFileArg platform
      (str ''a_quoted'' @ [squote] @ str ''filename'' @ [dquote] @ str ''.txt'') =
      str ''a_quoted'' @ [bslash, squote] @ str ''filename'' @ [bslash, dquote] @ str ''.txt''"
    by (simp add: escape_eval)
qed

theorem escapeFileArg_escapes_witness:
  "escapeFileArg ''linux'' (str ''a (b)'' @ [bslash] @ str ''c'') =
     str ''a'' @ [bslash] @ str '' '' @ [bslash] @ str ''(b'' @ [bslash] @ str '')'' @
     [bslash, bslash] @ str ''c'' \<and>
   escapeFileArg ''win32'' (str ''$HOME/x y'') = [bslash] @ str ''$HOME/x'' @ [bslash] @ str '' y''"
  using escapeFileArg_escapes [of "''linux''" "str ''a (b)'' @ [bslash] @ str ''c''"]
    escapeFileArg_escapes [of "''win32''" "str ''$HOME/x y''"]
  by (simp add: path_special_def regex_space_def str_def)

text \<open>
  C5, as the claim states it, fails: on \<open>win32\<close> the relative path \<open>dir\file\<close> does
  not match the drive-letter-rooted pattern and is converted all the same (it renders as
  \<open>dir/file\<close>, where the escaping alone gives \<open>dir\\file\<close>).
\<close>

theorem escapeFileArg_drive_counterexample:
  "\<not> drive_rooted (str ''dir'' @ [bslash] @ str ''file'') \<and>
   escapeFileArg ''win32'' (str ''dir'' @ [bslash] @ str ''file'') = str ''dir/file'' \<and>
   replace_class file_replace_class (str ''dir'' @ [bslash] @ str ''file'') =
     str ''dir'' @ [bslash, bslash] @ str ''file''"
  by (simp add: escape_eval)

text \<open>
  C5 (amended). On the host platform \<open>win32\<close> the conversion is made exactly for the
  strings that contain a backslash, which are the strings whose escaped form contains a
  doubled backslash, drive-rooted or not: every backslash of the string becomes a forward
  slash, every other special character keeps its escaping backslash, and a leading
  \<open>letter:/\<close> of the result is replaced by \<open>/\<close>. A string with no backslash is only
  escaped. A drive-rooted path \<open>X:\rest\<close> renders as \<open>/\<close> followed by the converted
  \<open>rest\<close>; in particular \<open>C:\home\username\develop\readme.txt\<close> renders as
  \<open>/home/username/develop/readme.txt\<close>.
\<close>

theorem escapeFileArg_posix_conversion:
  "test_double_bslash (replace_class file_replace_class filename) = (bslash \<in> set filename) \<and>
   escapeFileArg ''win32'' filename =
     (if bslash \<in> set filename
      then replace_drive (concat (map (\<lambda>c. if c = bslash then [slash]
              else if path_special c then [bslash, c] else [c]) filename))
      else concat (map (\<lambda>c. if path_special c then [bslash, c] else [c]) filename)) \<and>
   (drive_rooted filename \<longrightarrow>
      escapeFileArg ''win32'' filename =
        slash # concat (map (\<lambda>c. if c = bslash then [slash]
              else if path_special c then [bslash, c] else [c]) (drop 3 filename))) \<and>
   escapeFileArg ''win32''
     (str ''C:'' @ [bslash] @ str ''home'' @ [bslash] @ str ''username'' @ [bslash] @
      str ''develop'' @ [bslash] @ str ''readme.txt'') =
     str ''/home/username/develop/readme.txt''"
proof (intro conjI impI)
  show "test_double_bslash (replace_class file_replace_class filename) =
      (bslash \<in> set filename)"
    by (simp add: file_replace_class_path_special test_double_bslash_escaped)
next
  show "escapeFileArg ''win32'' filename =
     (if bslash \<in> set filename
      then replace_drive (concat (map (\<lambda>c. if c = bslash then [slash]
              else if path_special c then [bslash, c] else [c]) filename))
      else concat (map (\<lambda>c. if path_special c then [bslash, c] else [c]) filename))"
  proof (cases "bslash \<in> set filename")
    case True
    then show ?thesis
      by (simp add: escapeFileArg_win32_bslash replace_double_bslash_escaped)
  next
    case False
    then show ?thesis
      by (simp add: escapeFileArg_no_bslash replace_class_concat)
  qed
next
  assume "drive_rooted filename"
  then obtain l rest where f: "filename = l # colon # bslash # rest" and l: "regex_letter_i l"
    by (cases filename rule: drive_rooted.cases) auto
  have nl: "\<not> path_special l" "l \<noteq> bslash"
    using l by (simp_all add: regex_letter_not_special)
  have nc: "\<not> path_special colon"
    by (simp add: path_special_def regex_space_def)
  have "replace_double_bslash (replace_class path_special filename) =
      l # colon # slash # concat (map (\<lambda>c. if c = bslash then [slash]
              else if path_special c then [bslash, c] else [c]) rest)"
    unfolding replace_double_bslash_escaped
    by (simp add: f nl nc path_special_bslash)
  then show "escapeFileArg ''win32'' filename =
      slash # concat (map (\<lambda>c. if c = bslash then [slash]
              else if path_special c then [bslash, c] else [c]) (drop 3 filename))"
    using l by (simp add: f escapeFileArg_win32_bslash replace_drive_letter)
next
  show "escapeFileArg ''win32''
     (str ''C:'' @ [bslash] @ str ''home'' @ [bslash] @ str ''username'' @ [bslash] @
      str ''develop'' @ [bslash] @ str ''readme.txt'') =
     str ''/home/username/develop/readme.txt''"
    by (simp add: escape_eval)
qed

theorem escapeFileArg_posix_conversion_witness:
  "drive_rooted (str ''d:'' @ [bslash] @ str ''my docs'') \<and>
   escapeFileArg ''win32'' (str ''d:'' @ [bslash] @ str ''my docs'') =
     str ''/my'' @ [bslash] @ str '' docs''"
  using escapeFileArg_posix_conversion [of "str ''d:'' @ [bslash] @ str ''my docs''"]
  by (simp add: path_special_def regex_space_def regex_letter_i_def str_def)

section \<open>Properties of args\<close>

lemmas constructor_eval =
  constructor_def constructor_js_def processOptions_def processOptions_js_def
  initial_state_def empty_config_def step_source_def step_destination_def step_flags_def
  step_flags_js_def step_shell_def step_chmod_def step_exclude_def step_include_def
  step_set_def flag_if_def set_option_def split_chars_def
  letter_pairs_def letters_covered_def

lemma buildOption_None: "buildOption k None f = option_prefix k @ k"
  by (simp add: buildOption_def option_prefix_def)

lemma buildOption_Some:
  "buildOption k (Some v) f =
     (if v = [] then option_prefix k @ k else option_prefix k @ k @ option_glue k @ f v)"
  by (simp add: buildOption_def option_prefix_def option_glue_def)

lemma buildOption_shell: "buildOption k (Some v) escapeShellArg = option_token k v"
  by (simp add: buildOption_Some option_token_def)

lemma buildOption_slot: "buildOption k val escapeShellArg = slot_token k val"
  by (cases val) (simp_all add: buildOption_None buildOption_shell)

lemma args_entry_short:
  "short_flag e \<Longrightarrow> args_entry (short, long) e = (short @ [fst e], long)"
  by (cases e) (simp add: short_flag_def)

lemma args_entry_long:
  "\<not> short_flag e \<Longrightarrow> args_entry (short, long) e = (short, long @ option_tokens e)"
proof (cases e)
  case (Pair k v)
  assume "\<not> short_flag e"
  then show ?thesis using Pair
    by (cases v) (auto simp: short_flag_def buildOption_shell buildOption_None buildOption_slot)
qed

lemma foldl_args_entry:
  "foldl args_entry (short, long) es =
     (short @ map fst (filter short_flag es),
      long @ concat (map option_tokens (filter (\<lambda>e. \<not> short_flag e) es)))"
proof (induction es arbitrary: short long)
  case Nil
  show ?case by simp
next
  case (Cons e es)
  show ?case
  proof (cases "short_flag e")
    case True
    then show ?thesis by (simp add: args_entry_short Cons.IH)
  next
    case False
    then show ?thesis by (simp add: args_entry_long Cons.IH)
  qed
qed

lemma push_all: "(if length ys > 0 then xs @ ys else xs) = xs @ ys"
  by (cases ys) simp_all

lemma option_args_rendered: "option_args opts = rendered_options (object_entries opts)"
  unfolding option_args_def rendered_options_def foldl_args_entry Let_def prod.case push_all
  by simp

lemma buildOption_pattern:
  "buildOption (str name) (Some p) (escapeFileArg platform) =
     (if length name = 1 then
        (if p = [] then str ''-'' @ str name
         else str ''-'' @ str name @ str '' '' @ escapeFileArg platform p)
      else pattern_token platform name p)"
  by (simp add: buildOption_def pattern_token_def str_def)

lemma args_rendered:
  "args platform this =
     rendered_options (object_entries (u_options this)) @
     map (pattern_token platform ''exclude'') (u_excludes this) @
     map (pattern_token platform ''include'') (u_includes this) @
     map (escapeFileArg platform) (u_sources this) @
     (if u_destination this = [] then [] else [escapeFileArg platform (u_destination this)])"
  unfolding args_def option_args_rendered Let_def push_all
  by (simp add: buildOption_pattern)

lemma object_entries_no_index:
  "list_all (\<lambda>e. \<not> is_array_index (fst e)) obj \<Longrightarrow> object_entries obj = obj"
proof -
  assume a: "list_all (\<lambda>e. \<not> is_array_index (fst e)) obj"
  then have "filter (\<lambda>e. is_array_index (fst e)) obj = []"
    by (induction obj) simp_all
  moreover from a have "filter (\<lambda>e. \<not> is_array_index (fst e)) obj = obj"
    by (induction obj) simp_all
  ultimately show ?thesis
    by (simp add: object_entries_def)
qed

lemma object_entries_others:
  "filter (\<lambda>e. \<not> is_array_index (fst e)) (object_entries obj) =
     filter (\<lambda>e. \<not> is_array_index (fst e)) obj"
  by (simp add: object_entries_def filter_sort)

lemma object_entries_single: "object_entries [e] = [e]"
  by (simp add: object_entries_def)

lemmas object_eval =
  object_entries_def is_array_index_def is_digit_def decimal_value_def short_flag_def
  option_prefix_def option_glue_def option_token_def rendered_options_def pattern_token_def

text \<open>
  C1, as the claim states it, fails: with the options \<open>delete\<close> and \<open>10\<close> added in this
  order (as \<open>{delete: true, set: {"10": null}}\<close> does), \<open>args\<close> puts \<open>--10\<close> before
  \<open>--delete\<close>, where the order of insertion gives \<open>--delete\<close> first.
\<close>

theorem args_insertion_order_counterexample:
  "constructor (JObject (empty_config\<lparr>o_delete := True, o_set := Some [(str ''10'', None)]\<rparr>)) =
     Inr \<lparr>u_executable = str ''rsync'', u_executableShell = str ''/bin/sh'', u_sources = [],
          u_destination = [], u_includes = [], u_excludes = [],
          u_options = [(str ''delete'', VNull), (str ''10'', VNull)],
          u_options_proto = True\<rparr> \<and>
   args ''linux''
     \<lparr>u_executable = str ''rsync'', u_executableShell = str ''/bin/sh'', u_sources = [],
      u_destination = [], u_includes = [], u_excludes = [],
      u_options = [(str ''delete'', VNull), (str ''10'', VNull)],
      u_options_proto = True\<rparr> =
     [str ''--10'', str ''--delete''] \<and>
   rendered_options [(str ''delete'', VNull), (str ''10'', VNull)] =
     [str ''--delete'', str ''--10'']"
  by (simp add: constructor_eval args_def option_args_def buildOption_def object_eval str_def)

text \<open>
  C1 (amended). For every state and host platform, the token list of \<open>args\<close> is: the
  combined token of the short flags if there is one, then the tokens of the other option
  entries, both in the order in which \<open>Object.entries\<close> lists the option mapping (the keys
  that are array indices first, in ascending numeric order, then all other keys in the
  order of insertion, which is the order of insertion when no key is an array index);
  then one token for each exclude pattern in the order of the list, \<open>--exclude=\<close> and the
  path-escaped pattern (only \<open>--exclude\<close> for an empty pattern); then the same for the
  include patterns with \<open>--include\<close>; then the path-escaped sources in the order of the
  list; then the path-escaped destination if it is not empty. So every exclude token
  comes before every include token and every source before the destination.
\<close>

theorem args_order:
  "args platform this =
     rendered_options (object_entries (u_options this)) @
     map (pattern_token platform ''exclude'') (u_excludes this) @
     map (pattern_token platform ''include'') (u_includes this) @
     map (escapeFileArg platform) (u_sources this) @
     (if u_destination this = [] then [] else [escapeFileArg platform (u_destination this)]) \<and>
   object_entries (u_options this) =
     sort_key (\<lambda>e. decimal_value (fst e))
       (filter (\<lambda>e. is_array_index (fst e)) (u_options this)) @
     filter (\<lambda>e. \<not> is_array_index (fst e)) (u_options this) \<and>
   (list_all (\<lambda>e. \<not> is_array_index (fst e)) (u_options this) \<longrightarrow>
      object_entries (u_options this) = u_options this)"
  using args_rendered [of platform this] object_entries_no_index [of "u_options this"]
  by (simp add: object_entries_def)

theorem args_order_witness:
  "list_all (\<lambda>e. \<not> is_array_index (fst e))
     [(str ''a'', VNull), (str ''rsh'', VStr (str ''ssh'')), (str ''z'', VNull)] \<and>
   args ''linux''
     \<lparr>u_executable = str ''rsync'', u_executableShell = str ''/bin/sh'',
      u_sources = [str ''SOURCE'', str ''a b''],
      u_destination = str ''DESTINATION'', u_includes = [str ''*.md''],
      u_excludes = [str ''.git'', str ''build/*''],
      u_options = [(str ''a'', VNull), (str ''rsh'', VStr (str ''ssh'')), (str ''z'', VNull)], u_options_proto = True\<rparr> =
     [str ''-az'', str ''--rsh=ssh'', str ''--exclude=.git'', str ''--exclude=build/*'',
      str ''--include=*.md'', str ''SOURCE'', str ''a'' @ [bslash] @ str '' b'',
      str ''DESTINATION'']"
  using args_order [of "''linux''"
     "\<lparr>u_executable = str ''rsync'', u_executableShell = str ''/bin/sh'',
      u_sources = [str ''SOURCE'', str ''a b''],
      u_destination = str ''DESTINATION'', u_includes = [str ''*.md''],
      u_excludes = [str ''.git'', str ''build/*''],
      u_options = [(str ''a'', VNull), (str ''rsh'', VStr (str ''ssh'')), (str ''z'', VNull)], u_options_proto = True\<rparr>"]
  by (simp add: object_eval escape_eval)

text \<open>
  C2, as the claim states it, fails: with the short flags \<open>a\<close> and \<open>4\<close> added in this
  order (as \<open>flags: "a4"\<close> does), the combined token is \<open>-4a\<close>, where the order of
  insertion gives \<open>-a4\<close>.
\<close>

theorem short_flags_insertion_order_counterexample:
  "map_sum id u_options (constructor (JObject (empty_config\<lparr>o_flags := Some (Str (str ''a4''))\<rparr>))) =
     Inr [(str ''a'', VNull), (str ''4'', VNull)] \<and>
   option_args [(str ''a'', VNull), (str ''4'', VNull)] = [str ''-4a''] \<and>
   rendered_options [(str ''a'', VNull), (str ''4'', VNull)] = [str ''-a4'']"
  by (simp add: constructor_eval option_args_def object_eval str_def)

text \<open>
  C2 (amended). For every option mapping, the keys of length 1 whose value is the null
  marker are concatenated into one combined token \<open>-\<close> and the keys, in the order in which
  \<open>Object.entries\<close> lists the mapping (the keys that are array indices first, in ascending
  numeric order, then all other keys in the order of insertion; the order of insertion
  when no key is an array index), and this token is there only when there is such a key.
  Every other entry renders as tokens of its own after it: one token for a key with the
  null marker or a string, one token for each element of a sequence (the prefixed key
  alone where the sequence has a hole).
\<close>

theorem option_args_short_flags:
  "option_args opts =
     (if filter short_flag (object_entries opts) = [] then []
      else [str ''-'' @ concat (map fst (filter short_flag (object_entries opts)))]) @
     concat (map option_tokens (filter (\<lambda>e. \<not> short_flag e) (object_entries opts))) \<and>
   filter (\<lambda>e. \<not> is_array_index (fst e)) (object_entries opts) =
     filter (\<lambda>e. \<not> is_array_index (fst e)) opts \<and>
   (list_all (\<lambda>e. \<not> is_array_index (fst e)) opts \<longrightarrow> object_entries opts = opts) \<and>
   (\<forall>k. option_tokens (k, VNull) = [option_prefix k @ k]) \<and>
   (\<forall>k v. option_tokens (k, VStr v) = [option_token k v]) \<and>
   (\<forall>k vs. option_tokens (k, VArr vs) = map (slot_token k) vs) \<and>
   (\<forall>k. slot_token k None = option_prefix k @ k) \<and>
   (\<forall>k v. slot_token k (Some v) = option_token k v)"
  using option_args_rendered [of opts] object_entries_no_index [of opts]
    object_entries_others [of opts]
  by (simp add: rendered_options_def)

theorem option_args_short_flags_witness:
  "list_all (\<lambda>e. \<not> is_array_index (fst e))
     [(str ''r'', VNull), (str ''a'', VNull), (str ''v'', VNull),
      (str ''f'', VStr (str ''- .git'')), (str ''inplace'', VNull),
      (str ''chmod'', VArr [Some (str ''og=uwx''), Some (str ''rx=ogw'')])] \<and>
   option_args
     [(str ''r'', VNull), (str ''a'', VNull), (str ''v'', VNull),
      (str ''f'', VStr (str ''- .git'')), (str ''inplace'', VNull),
      (str ''chmod'', VArr [Some (str ''og=uwx''), Some (str ''rx=ogw'')])] =
     [str ''-rav'', str ''-f '' @ [dquote] @ str ''- .git'' @ [dquote], str ''--inplace'',
      str ''--chmod=og=uwx'', str ''--chmod=rx=ogw'']"
  using option_args_short_flags [of
     "[(str ''r'', VNull), (str ''a'', VNull), (str ''v'', VNull),
      (str ''f'', VStr (str ''- .git'')), (str ''inplace'', VNull),
      (str ''chmod'', VArr [Some (str ''og=uwx''), Some (str ''rx=ogw'')])]"]
  by (simp add: object_eval escape_eval)

text \<open>
  C6. An option entry whose value is the empty string renders as the prefixed key alone
  (\<open>-\<close> before a key of one character, \<open>--\<close> before any other key), with no separator
  and no value, as \<open>buildOption\<close> renders a key with no value; in \<open>args\<close> the entry
  yields this one token, among the tokens of the options that are not short flags.
\<close>

theorem empty_value_option:
  "buildOption key (Some []) escapeArg = (if length key = 1 then str ''-'' else str ''--'') @ key \<and>
   buildOption key (Some []) escapeArg = buildOption key None escapeArg \<and>
   args_entry (short, long) (key, VStr []) =
     (short, long @ [(if length key = 1 then str ''-'' else str ''--'') @ key]) \<and>
   option_args [(key, VStr [])] = [(if length key = 1 then str ''-'' else str ''--'') @ key]"
  by (simp add: buildOption_def option_args_def object_entries_single)

theorem empty_value_option_witness:
  "option_args [(str ''f'', VStr [])] = [str ''-f''] \<and>
   option_args [(str ''max-size'', VStr [])] = [str ''--max-size'']"
  using empty_value_option [of "str ''f''"] empty_value_option [of "str ''max-size''"]
  by (simp add: str_def)

section \<open>Properties of the constructors\<close>

text \<open>
  C7, as the claim states it, fails: \<open>undefined\<close> is no object, and the constructor
  takes it without throwing, as the empty configuration.
\<close>

theorem constructor_undefined_counterexample:
  "typeof JUndefined = ''undefined'' \<and>
   constructor JUndefined =
     Inr \<lparr>u_executable = str ''rsync'', u_executableShell = str ''/bin/sh'', u_sources = [],
          u_destination = [], u_includes = [], u_excludes = [], u_options = [], u_options_proto = True\<rparr>"
  by (simp add: constructor_eval)

text \<open>
  C7 (amended). For every constructor input other than \<open>undefined\<close> (which stands for
  the default, empty configuration) whose \<open>typeof\<close> is not \<open>"object"\<close> or that is an
  array, the constructor throws, before anything else is done with the input, the error
  with the message \<open>Rsync options must be an Object\<close>.
\<close>

theorem constructor_rejects:
  "arg \<noteq> JUndefined \<Longrightarrow> typeof arg \<noteq> ''object'' \<or> isArray arg \<Longrightarrow>
     constructor arg = Inl (Error (str ''Rsync options must be an Object''))"
  by (simp add: constructor_def)

theorem constructor_rejects_witness:
  "JString (str ''string'') \<noteq> JUndefined \<and> typeof (JString (str ''string'')) \<noteq> ''object'' \<and>
   constructor (JString (str ''string'')) = Inl (Error (str ''Rsync options must be an Object'')) \<and>
   JArray [] \<noteq> JUndefined \<and> isArray (JArray []) \<and>
   constructor (JArray []) = Inl (Error (str ''Rsync options must be an Object''))"
  using constructor_rejects [of "JString (str ''string'')"] constructor_rejects [of "JArray []"]
  by simp

lemma step_flags_js_Inr:
  "step_flags_js c this = Inr this' \<Longrightarrow> this' = step_flags c this"
  by (auto simp: step_flags_js_def step_flags_def split: option.splits if_splits str_or_arr.splits)

lemma covered_disj: "(letter \<longrightarrow> named) \<Longrightarrow> (named \<or> letter) = named"
  by blast

lemma processOptions_js_Inr:
  assumes "letters_covered c" and "processOptions_js c this = Inr this'"
  shows "this' = processOptions c this"
proof -
  from assms(2) obtain this3 where
    f: "step_flags_js c (step_destination c (step_source c this)) = Inr this3"
    by (auto simp: processOptions_js_def split: sum.splits)
  then have "this3 = step_flags c (step_destination c (step_source c this))"
    by (rule step_flags_js_Inr)
  moreover from assms(1) have
    "(o_archive c \<or> o_a c) = o_archive c" "(o_compress c \<or> o_z c) = o_compress c"
    "(o_recursive c \<or> o_r c) = o_recursive c" "(o_update c \<or> o_u c) = o_update c"
    "(o_quiet c \<or> o_q c) = o_quiet c" "(o_dirs c \<or> o_d c) = o_dirs c"
    "(o_links c \<or> o_l c) = o_links c" "(o_dry c \<or> o_n c) = o_dry c"
    "(o_hardLinks c \<or> o_H c) = o_hardLinks c" "(o_perms c \<or> o_p c) = o_perms c"
    "(o_executability c \<or> o_E c) = o_executability c" "(o_group c \<or> o_g c) = o_group c"
    "(o_owner c \<or> o_o c) = o_owner c" "(o_acls c \<or> o_A c) = o_acls c"
    "(o_xattrs c \<or> o_X c) = o_xattrs c" "(o_times c \<or> o_t c) = o_times c"
    by (simp_all add: letters_covered_def letter_pairs_def covered_disj)
  ultimately show ?thesis
    using assms(2) f by (simp add: processOptions_js_def processOptions_def)
qed

lemma constructor_Inr:
  assumes "constructor arg = Inr ts"
  obtains c where "arg = JUndefined \<and> c = empty_config \<or> arg = JObject c"
    and "ts = processOptions c (initial_state c)"
  using assms by (cases arg) (auto simp: constructor_def)

text \<open>The option mapping that the constructor builds has no array with a hole.\<close>

lemma assign_dense:
  "list_all (\<lambda>e. dense_value (snd e)) obj \<Longrightarrow> dense_value v \<Longrightarrow>
     list_all (\<lambda>e. dense_value (snd e)) (assign obj k v)"
  by (induction obj) auto

lemma set_option_dense:
  "dense_options this \<Longrightarrow> dense_value v \<Longrightarrow> dense_options (set_option k v this)"
  by (simp add: dense_options_def set_option_def assign_dense)

lemma flag_if_dense: "dense_options this \<Longrightarrow> dense_options (flag_if b k this)"
  by (simp add: flag_if_def set_option_dense)

lemma step_source_dense: "dense_options this \<Longrightarrow> dense_options (step_source c this)"
  by (simp add: step_source_def dense_options_def split: option.splits)

lemma step_destination_dense:
  "dense_options this \<Longrightarrow> dense_options (step_destination c this)"
  by (simp add: step_destination_def dense_options_def split: option.splits)

lemma foldl_flags_dense:
  "dense_options this \<Longrightarrow>
     dense_options (foldl (\<lambda>t flag. set_option flag VNull t) this flags)"
  by (induction flags arbitrary: this) (simp_all add: set_option_dense)

lemma step_flags_dense: "dense_options this \<Longrightarrow> dense_options (step_flags c this)"
  by (simp add: step_flags_def foldl_flags_dense split: option.splits)

lemma step_shell_dense: "dense_options this \<Longrightarrow> dense_options (step_shell c this)"
  by (simp add: step_shell_def set_option_dense split: option.splits)

lemma step_chmod_dense:
  "dense_options this \<Longrightarrow> chmod_dense (o_chmod c) \<Longrightarrow> dense_options (step_chmod c this)"
  by (auto simp: step_chmod_def set_option_dense split: option.splits str_or_arr.splits)

lemma step_exclude_dense: "dense_options this \<Longrightarrow> dense_options (step_exclude c this)"
  by (simp add: step_exclude_def dense_options_def split: option.splits)

lemma step_include_dense: "dense_options this \<Longrightarrow> dense_options (step_include c this)"
  by (simp add: step_include_def dense_options_def split: option.splits)

lemma foldl_set_dense:
  "dense_options this \<Longrightarrow>
     dense_options
       (foldl (\<lambda>t (key, val).
                 set_option key (case val of None \<Rightarrow> VNull | Some s \<Rightarrow> VStr s) t) this es)"
  by (induction es arbitrary: this) (auto simp: set_option_dense split: option.splits)

lemma step_set_dense: "dense_options this \<Longrightarrow> dense_options (step_set c this)"
  by (simp add: step_set_def foldl_set_dense split: option.splits)

lemma processOptions_dense:
  "dense_options this \<Longrightarrow> chmod_dense (o_chmod c) \<Longrightarrow> dense_options (processOptions c this)"
  by (simp add: processOptions_def flag_if_dense step_source_dense step_destination_dense
      step_flags_dense step_shell_dense step_chmod_dense step_exclude_dense
      step_include_dense step_set_dense)

lemma initial_state_dense: "dense_options (initial_state c)"
  by (simp add: dense_options_def initial_state_def)

text \<open>On an option mapping without holes \<open>forEach\<close> and \<open>for ... of\<close> walk alike.\<close>

lemma present_dense:
  "None \<notin> set vals \<Longrightarrow>
     map (\<lambda>val. buildOption key (Some val) f) (present vals) =
     map (\<lambda>val. buildOption key val f) vals"
proof (induction vals)
  case Nil
  show ?case by simp
next
  case (Cons v vals)
  then show ?case by (cases v) simp_all
qed

lemma args_entry_js_dense:
  "dense_value (snd e) \<Longrightarrow> args_entry_js acc e = args_entry acc e"
proof (cases acc; cases e)
  fix short long key val
  assume "dense_value (snd e)" and "acc = (short, long)" and "e = (key, val)"
  then show ?thesis
    by (cases val) (simp_all add: present_dense)
qed

lemma foldl_args_entry_js_dense:
  "list_all (\<lambda>e. dense_value (snd e)) es \<Longrightarrow>
     foldl args_entry_js acc es = foldl args_entry acc es"
  by (induction es arbitrary: acc) (simp_all add: args_entry_js_dense)

lemma object_entries_dense:
  "list_all (\<lambda>e. dense_value (snd e)) obj \<Longrightarrow>
     list_all (\<lambda>e. dense_value (snd e)) (object_entries obj)"
  by (auto simp: object_entries_def list_all_iff)

lemma args_js_dense: "dense_options this \<Longrightarrow> args_js platform this = args platform this"
  by (simp add: args_js_def args_def option_args_js_def option_args_def dense_options_def
      foldl_args_entry_js_dense object_entries_dense)

text \<open>
  C10, as the claim states it, fails: both variants accept the configuration \<open>{a: true}\<close>;
  the TypeScript one renders no token for it (command \<open>rsync \<close>), the JavaScript one
  renders \<open>-a\<close>. Both accept \<open>{chmod: new Array(1)}\<close> too, an array with one hole:
  the TypeScript one renders \<open>--chmod\<close> for the hole, the JavaScript one skips it.
\<close>

theorem variants_differ_counterexample:
  "map_sum id (command ''linux'') (constructor (JObject (empty_config\<lparr>o_a := True\<rparr>))) =
     Inr (str ''rsync '') \<and>
   map_sum id (command_js ''linux'') (constructor_js (JObject (empty_config\<lparr>o_a := True\<rparr>))) =
     Inr (str ''rsync -a'') \<and>
   map_sum id (args ''linux'') (constructor (JObject (empty_config\<lparr>o_a := True\<rparr>))) =
     Inr [] \<and>
   map_sum id (args_js ''linux'') (constructor_js (JObject (empty_config\<lparr>o_a := True\<rparr>))) =
     Inr [str ''-a''] \<and>
   map_sum id (command ''linux'')
     (constructor (JObject (empty_config\<lparr>o_chmod := Some (Arr [None])\<rparr>))) =
     Inr (str ''rsync --chmod'') \<and>
   map_sum id (command_js ''linux'')
     (constructor_js (JObject (empty_config\<lparr>o_chmod := Some (Arr [None])\<rparr>))) =
     Inr (str ''rsync '')"
  by (simp add: constructor_eval command_def command_js_def args_def args_js_def
      option_args_def option_args_js_def buildOption_def object_eval str_def)

text \<open>
  C10 (amended). For every constructor input that both variants accept without throwing
  and that, if it is a configuration object, sets a one-letter field (\<open>a\<close>, \<open>z\<close>, \<open>r\<close>,
  \<open>u\<close>, \<open>q\<close>, \<open>d\<close>, \<open>l\<close>, \<open>n\<close>, \<open>H\<close>, \<open>p\<close>, \<open>E\<close>, \<open>g\<close>, \<open>o\<close>, \<open>A\<close>, \<open>X\<close>, \<open>t\<close>) to a
  truthy value only where the named shorthand of the same flag is truthy too, and whose
  \<open>chmod\<close>, if it is an array, has no hole, the two variants build the same state, and
  \<open>args\<close> and \<open>command\<close> of the JavaScript variant give the token list and the string
  that those of the TypeScript variant give, on every host platform.
\<close>

theorem variants_agree:
  assumes "constructor arg = Inr ts" and "constructor_js arg = Inr js"
    and "\<forall>c. arg = JObject c \<longrightarrow> letters_covered c \<and> chmod_dense (o_chmod c)"
  shows "js = ts \<and> args_js platform js = args platform ts \<and>
    command_js platform js = command platform ts"
proof -
  from assms(1) obtain c where
    obj: "arg = JUndefined \<and> c = empty_config \<or> arg = JObject c" and
    t: "ts = processOptions c (initial_state c)"
    by (rule constructor_Inr)
  have j: "processOptions_js c (initial_state c) = Inr js"
    using obj assms(2) by (auto simp: constructor_js_def)
  have lc: "letters_covered c"
    using obj assms(3) by (auto simp: letters_covered_def letter_pairs_def empty_config_def)
  have cd: "chmod_dense (o_chmod c)"
    using obj assms(3) by (auto simp: empty_config_def)
  have eq: "js = ts"
    using processOptions_js_Inr [OF lc j] t by simp
  have "dense_options ts"
    unfolding t using initial_state_dense cd by (rule processOptions_dense)
  then have "args_js platform ts = args platform ts"
    by (rule args_js_dense)
  then show ?thesis
    using eq by (simp add: command_js_def command_def)
qed

theorem variants_agree_witness:
  "constructor (JObject (empty_config\<lparr>o_flags := Some (Str (str ''vz'')),
       o_source := Some (Str (str ''a b'')), o_destination := Some (str ''dst''),
       o_archive := True, o_a := True,
       o_chmod := Some (Arr [Some (str ''og=uwx''), Some (str ''rx=ogw'')])\<rparr>)) =
     Inr \<lparr>u_executable = str ''rsync'', u_executableShell = str ''/bin/sh'',
          u_sources = [str ''a b''], u_destination = str ''dst'', u_includes = [],
          u_excludes = [],
          u_options = [(str ''v'', VNull), (str ''z'', VNull), (str ''a'', VNull),
                       (str ''chmod'', VArr [Some (str ''og=uwx''), Some (str ''rx=ogw'')])],
          u_options_proto = True\<rparr> \<and>
   constructor_js (JObject (empty_config\<lparr>o_flags := Some (Str (str ''vz'')),
       o_source := Some (Str (str ''a b'')), o_destination := Some (str ''dst''),
       o_archive := True, o_a := True,
       o_chmod := Some (Arr [Some (str ''og=uwx''), Some (str ''rx=ogw'')])\<rparr>)) =
     Inr \<lparr>u_executable = str ''rsync'', u_executableShell = str ''/bin/sh'',
          u_sources = [str ''a b''], u_destination = str ''dst'', u_includes = [],
          u_excludes = [],
          u_options = [(str ''v'', VNull), (str ''z'', VNull), (str ''a'', VNull),
                       (str ''chmod'', VArr [Some (str ''og=uwx''), Some (str ''rx=ogw'')])],
          u_options_proto = True\<rparr> \<and>
   letters_covered (empty_config\<lparr>o_flags := Some (Str (str ''vz'')),
       o_source := Some (Str (str ''a b'')), o_destination := Some (str ''dst''),
       o_archive := True, o_a := True,
       o_chmod := Some (Arr [Some (str ''og=uwx''), Some (str ''rx=ogw'')])\<rparr>) \<and>
   chmod_dense (Some (Arr [Some (str ''og=uwx''), Some (str ''rx=ogw'')])) \<and>
   command_js ''linux''
     \<lparr>u_executable = str ''rsync'', u_executableShell = str ''/bin/sh'',
      u_sources = [str ''a b''], u_destination = str ''dst'', u_includes = [],
      u_excludes = [],
      u_options = [(str ''v'', VNull), (str ''z'', VNull), (str ''a'', VNull),
                   (str ''chmod'', VArr [Some (str ''og=uwx''), Some (str ''rx=ogw'')])],
      u_options_proto = True\<rparr> =
     str ''rsync -vza --chmod=og=uwx --chmod=rx=ogw a'' @ [bslash] @ str '' b dst''"
proof -
  let ?c = "empty_config\<lparr>o_flags := Some (Str (str ''vz'')),
       o_source := Some (Str (str ''a b'')), o_destination := Some (str ''dst''),
       o_archive := True, o_a := True,
       o_chmod := Some (Arr [Some (str ''og=uwx''), Some (str ''rx=ogw'')])\<rparr>"
  let ?st = "\<lparr>u_executable = str ''rsync'', u_executableShell = str ''/bin/sh'',
      u_sources = [str ''a b''], u_destination = str ''dst'', u_includes = [],
      u_excludes = [],
      u_options = [(str ''v'', VNull), (str ''z'', VNull), (str ''a'', VNull),
                   (str ''chmod'', VArr [Some (str ''og=uwx''), Some (str ''rx=ogw'')])],
      u_options_proto = True\<rparr>"
  have t: "constructor (JObject ?c) = Inr ?st"
    by (simp add: constructor_eval str_def)
  have j: "constructor_js (JObject ?c) = Inr ?st"
    by (simp add: constructor_eval str_def)
  have l: "letters_covered ?c"
    by (simp add: letters_covered_def letter_pairs_def empty_config_def)
  have d: "chmod_dense (Some (Arr [Some (str ''og=uwx''), Some (str ''rx=ogw'')]))"
    by simp
  have n: "\<forall>c. JObject ?c = JObject c \<longrightarrow> letters_covered c \<and> chmod_dense (o_chmod c)"
    using l by (simp add: empty_config_def)
  have c: "command ''linux'' ?st =
      str ''rsync -vza --chmod=og=uwx --chmod=rx=ogw a'' @ [bslash] @ str '' b dst''"
    by (simp add: command_def args_def option_args_def buildOption_def object_eval
        escape_eval)
  from variants_agree [OF t j n, of "''linux''"] t j l d c show ?thesis
    by simp
qed

section \<open>Properties of execute\<close>

lemma deliver_settled: "p \<noteq> Pending \<Longrightarrow> deliver platform this p n = p"
  by (cases n; cases p) (simp_all add: on_close_def on_error_def)

lemma foldl_deliver_settled: "p \<noteq> Pending \<Longrightarrow> foldl (deliver platform this) p ns = p"
  by (induction ns) (simp_all add: deliver_settled)

lemma settlements_settled: "p \<noteq> Pending \<Longrightarrow> settlements platform this p ns = 0"
  by (induction ns) (simp_all add: deliver_settled)

lemma deliver_data: "\<not> completion n \<Longrightarrow> deliver platform this p n = p"
  by (cases n) simp_all

lemma deliver_completion: "completion n \<Longrightarrow> deliver platform this Pending n \<noteq> Pending"
  by (cases n) (simp_all add: on_close_def on_error_def)

lemma foldl_deliver_data:
  "\<not> list_ex completion pre \<Longrightarrow> foldl (deliver platform this) p pre = p"
  by (induction pre) (simp_all add: deliver_data)

lemma execute_first_completion:
  "\<not> list_ex completion pre \<Longrightarrow> completion n \<Longrightarrow>
     execute platform this (pre @ n # post) = deliver platform this Pending n"
  by (simp add: execute_def foldl_deliver_data foldl_deliver_settled deliver_completion)

lemma foldl_deliver_find:
  "foldl (deliver platform this) Pending ns =
     (case find completion ns of None \<Rightarrow> Pending | Some n \<Rightarrow> deliver platform this Pending n)"
proof (induction ns)
  case Nil
  show ?case by simp
next
  case (Cons n ns)
  show ?case
  proof (cases "completion n")
    case True
    then show ?thesis
      by (simp add: foldl_deliver_settled deliver_completion)
  next
    case False
    then show ?thesis
      using Cons.IH by (simp add: deliver_data)
  qed
qed

lemma settlements_pending:
  "settlements platform this Pending ns = (if list_ex completion ns then 1 else 0)"
proof (induction ns)
  case Nil
  show ?case by simp
next
  case (Cons n ns)
  show ?case
  proof (cases "completion n")
    case True
    then show ?thesis
      using deliver_completion [OF True, of platform this]
      by (simp add: settlements_settled)
  next
    case False
    then show ?thesis
      using Cons.IH by (simp add: deliver_data)
  qed
qed

lemma find_list_ex: "list_ex P xs \<Longrightarrow> \<exists>x. find P xs = Some x \<and> P x"
  by (induction xs) auto

lemmas execute_eval =
  execute_def on_close_def on_error_def number_string_def decimal.simps command_def
  args_def option_args_def buildOption_def

text \<open>
  C8. When the first of the \<open>close\<close> and \<open>error\<close> notifications of an execution is
  \<open>close\<close> with the exit code 0, the promise is fulfilled with the code 0 and the
  command string; when it is \<open>close\<close> with an exit code \<open>N\<close> other than 0, the promise is
  rejected with an error whose \<open>code\<close> is \<open>N\<close>, whose \<open>cmd\<close> is the command string and
  whose message is \<open>rsync exited with code\<close> followed by the decimal numeral of \<open>N\<close>.
  Whatever arrives later changes nothing.
\<close>

theorem execute_exit_code:
  assumes "\<not> list_ex completion pre"
  shows "execute platform this (pre @ Close (Some 0) # post) =
      Fulfilled \<lparr>code = 0, cmd = command platform this\<rparr> \<and>
    (N \<noteq> 0 \<longrightarrow>
      execute platform this (pre @ Close (Some N) # post) =
        Rejected (RsyncError (str ''rsync exited with code '' @ number_string N) N
          (command platform this)))"
  using assms by (simp add: execute_first_completion on_close_def)

theorem execute_exit_code_witness:
  "\<not> list_ex completion [StdoutData (str ''sending''), StderrData (str ''warn'')] \<and>
   execute ''linux''
     \<lparr>u_executable = str ''rsync'', u_executableShell = str ''/bin/sh'',
      u_sources = [str ''a''], u_destination = str ''b'', u_includes = [], u_excludes = [],
      u_options = [], u_options_proto = True\<rparr>
     ([StdoutData (str ''sending''), StderrData (str ''warn'')] @
      Close (Some 0) # [ErrorEvent (str ''late'')]) =
     Fulfilled \<lparr>code = 0, cmd = str ''rsync a b''\<rparr> \<and>
   execute ''linux''
     \<lparr>u_executable = str ''rsync'', u_executableShell = str ''/bin/sh'',
      u_sources = [str ''a''], u_destination = str ''b'', u_includes = [], u_excludes = [],
      u_options = [], u_options_proto = True\<rparr>
     ([StdoutData (str ''sending''), StderrData (str ''warn'')] @
      Close (Some 23) # [ErrorEvent (str ''late'')]) =
     Rejected (RsyncError (str ''rsync exited with code 23'') 23 (str ''rsync a b''))"
proof -
  let ?st = "\<lparr>u_executable = str ''rsync'', u_executableShell = str ''/bin/sh'',
      u_sources = [str ''a''], u_destination = str ''b'', u_includes = [], u_excludes = [],
      u_options = [], u_options_proto = True\<rparr>"
  let ?pre = "[StdoutData (str ''sending''), StderrData (str ''warn'') :: jsstring notification]"
  have h: "\<not> list_ex completion ?pre"
    by simp
  have c: "command ''linux'' ?st = str ''rsync a b''"
    by (simp add: execute_eval object_eval escape_eval)
  have m: "str ''rsync exited with code '' @ number_string 23 = str ''rsync exited with code 23''"
    by (simp add: number_string_def decimal.simps str_def)
  from execute_exit_code [OF h, of "''linux''" ?st "[ErrorEvent (str ''late'')]" 23] h c m
  show ?thesis by simp
qed

text \<open>
  C9. The promise of an execution changes its state at most once: exactly once when a
  \<open>close\<close> or \<open>error\<close> notification arrives (and not at all as long as none has). The
  first of these notifications alone determines the outcome, whatever their order and
  number: a settled promise is left as it is by every later notification.
\<close>

theorem execute_settles_once:
  "settlements platform this Pending ns = (if list_ex completion ns then 1 else 0) \<and>
   execute platform this ns =
     (case find completion ns of
        None \<Rightarrow> Pending
      | Some n \<Rightarrow> deliver platform this Pending n) \<and>
   (list_ex completion ns \<longrightarrow> execute platform this ns \<noteq> Pending) \<and>
   (execute platform this ns \<noteq> Pending \<longrightarrow>
      execute platform this (ns @ later) = execute platform this ns)"
proof (intro conjI impI)
  show "settlements platform this Pending ns = (if list_ex completion ns then 1 else 0)"
    by (rule settlements_pending)
next
  show f: "execute platform this ns =
     (case find completion ns of
        None \<Rightarrow> Pending
      | Some n \<Rightarrow> deliver platform this Pending n)"
    by (simp add: execute_def foldl_deliver_find)
  assume "list_ex completion ns"
  then obtain n where "find completion ns = Some n" and "completion n"
    using find_list_ex by blast
  then show "execute platform this ns \<noteq> Pending"
    using f by (simp add: deliver_completion)
next
  assume "execute platform this ns \<noteq> Pending"
  then show "execute platform this (ns @ later) = execute platform this ns"
    by (simp add: execute_def foldl_deliver_settled)
qed

theorem execute_settles_once_witness:
  "list_ex completion [StdoutData (str ''x''), ErrorEvent (str ''ENOENT''), Close (Some 0),
     Close (Some 1)] \<and>
   settlements ''linux''
     \<lparr>u_executable = str ''rsync'', u_executableShell = str ''/bin/sh'',
      u_sources = [], u_destination = [], u_includes = [], u_excludes = [],
      u_options = [], u_options_proto = True\<rparr> Pending
     [StdoutData (str ''x''), ErrorEvent (str ''ENOENT''), Close (Some 0), Close (Some 1)] = 1 \<and>
   execute ''linux''
     \<lparr>u_executable = str ''rsync'', u_executableShell = str ''/bin/sh'',
      u_sources = [], u_destination = [], u_includes = [], u_excludes = [],
      u_options = [], u_options_proto = True\<rparr>
     [StdoutData (str ''x''), ErrorEvent (str ''ENOENT''), Close (Some 0), Close (Some 1)] =
     Rejected (PlatformError (str ''ENOENT''))"
  using execute_settles_once [of "''linux''"
     "\<lparr>u_executable = str ''rsync'', u_executableShell = str ''/bin/sh'',
      u_sources = [], u_destination = [], u_includes = [], u_excludes = [],
      u_options = [], u_options_proto = True\<rparr>"
     "[StdoutData (str ''x''), ErrorEvent (str ''ENOENT''), Close (Some 0), Close (Some 1)]"]
  by (simp add: on_error_def)
end
